theory Spec2Isabelle
  imports Complex_Main
begin

section \<open>Values exchanged with the outside\<close>

text \<open>
  The script \<^verbatim>\<open>mt5_executor.py\<close> reads one JSON document, talks to the MetaTrader5
  binding and prints one JSON document. A JSON value is modelled as Python's
  \<^verbatim>\<open>json.loads\<close> delivers it; an object is an association list, so that the printed
  key order of an output dictionary is kept. Python floats are never computed with: the
  script only passes them on, so the float type is the parameter \<open>'f\<close>.
\<close>

datatype 'f json =
    JNull
  | JBool bool
  | JInt int
  | JFloat 'f
  | JStr string
  | JList "'f json list"
  | JObj "(string \<times> 'f json) list"

text \<open>
  The exception classes that occur. \<open>Exception\<close> is the base class itself, as raised at
  line 103; every class here is a subclass of it. \<open>JSONDecodeError\<close> and
  \<open>UnicodeDecodeError\<close> are subclasses of \<open>ValueError\<close>: the clause
  \<^verbatim>\<open>except ValueError\<close> matches the three of them, the clause
  \<^verbatim>\<open>except json.JSONDecodeError\<close> matches the first alone. \<open>SystemExit\<close> is no subclass
  of \<open>Exception\<close> and is modelled by the outcome \<open>Exits\<close> below.
\<close>

datatype pyexn =
    ValueError string
  | JSONDecodeError string
  | UnicodeDecodeError string
  | TypeError string
  | KeyError string
  | OverflowError string
  | AttributeError string
  | RecursionError string
  | RuntimeError string
  | Exception string

fun exn_str :: "pyexn \<Rightarrow> string" where
  "exn_str (ValueError m) = m"
| "exn_str (JSONDecodeError m) = m"
| "exn_str (UnicodeDecodeError m) = m"
| "exn_str (TypeError m) = m"
| "exn_str (KeyError m) = m"
| "exn_str (OverflowError m) = m"
| "exn_str (AttributeError m) = m"
| "exn_str (RecursionError m) = m"
| "exn_str (RuntimeError m) = m"
| "exn_str (Exception m) = m"

fun is_ValueError :: "pyexn \<Rightarrow> bool" where
  "is_ValueError (ValueError m) = True"
| "is_ValueError (JSONDecodeError m) = True"
| "is_ValueError (UnicodeDecodeError m) = True"
| "is_ValueError e = False"

fun is_JSONDecodeError :: "pyexn \<Rightarrow> bool" where
  "is_JSONDecodeError (JSONDecodeError m) = True"
| "is_JSONDecodeError e = False"

datatype 'a outcome = Returns 'a | Raises pyexn | Exits int

subsection \<open>The interpreter\<close>

text \<open>
  What the interpreter and its standard library contribute, and the source does not
  contain: \<^verbatim>\<open>sys.stdin.read\<close>, which decodes the bytes on standard input and raises
  where they are not text; the JSON parser, which returns a value or raises (a
  JSONDecodeError on text that is not JSON, and other exceptions, such as a
  RecursionError on text nested too deep); the parser behind \<^verbatim>\<open>float\<close>; the
  conversion of an integer to a float (which raises OverflowError on an integer too
  large); \<^verbatim>\<open>str\<close> of a value that is not a string; and the wording of the exceptions
  the interpreter raises by itself. They are parameters of the model.
\<close>

datatype 'f fault =
    NotIterable "'f json"
  | BadSubscript "'f json"
  | MissingKey string
  | FloatOfText string
  | FloatOfType "'f json"
  | FloatOfBigInt int
  | NoneAttribute string

record 'f runtime =
  stdin_read :: "string \<Rightarrow> pyexn + string"
  json_loads :: "string \<Rightarrow> pyexn + 'f json"
  float_of_str :: "string \<Rightarrow> 'f option"
  float_of_int :: "int \<Rightarrow> 'f option"
  str_of :: "'f json \<Rightarrow> string"
  fault_text :: "'f fault \<Rightarrow> string"

text \<open>An f-string field \<^verbatim>\<open>{symbol}\<close>: a string is inserted as it is.\<close>

fun format_value :: "'f runtime \<Rightarrow> 'f json \<Rightarrow> string" where
  "format_value rt (JStr s) = s"
| "format_value rt v = str_of rt v"

subsection \<open>The MetaTrader5 binding\<close>

text \<open>
  The constants of the binding that the script names, as members of the binding's
  enumerations.
\<close>

datatype trade_action =
    TRADE_ACTION_DEAL | TRADE_ACTION_PENDING | TRADE_ACTION_SLTP
  | TRADE_ACTION_MODIFY | TRADE_ACTION_REMOVE | TRADE_ACTION_CLOSE_BY

datatype order_type =
    ORDER_TYPE_BUY | ORDER_TYPE_SELL | ORDER_TYPE_BUY_LIMIT | ORDER_TYPE_SELL_LIMIT
  | ORDER_TYPE_BUY_STOP | ORDER_TYPE_SELL_STOP | ORDER_TYPE_BUY_STOP_LIMIT
  | ORDER_TYPE_SELL_STOP_LIMIT | ORDER_TYPE_CLOSE_BY

datatype order_time =
    ORDER_TIME_GTC | ORDER_TIME_DAY | ORDER_TIME_SPECIFIED | ORDER_TIME_SPECIFIED_DAY

datatype order_filling =
    ORDER_FILLING_FOK | ORDER_FILLING_IOC | ORDER_FILLING_RETURN

definition TRADE_RETCODE_DONE :: int where
  "TRADE_RETCODE_DONE = 10009"

record 'f AccountInfo =
  login :: int
  server :: string
  balance :: 'f
  equity :: 'f

record SymbolInfo =
  visible :: bool

record 'f Tick =
  ask :: 'f
  bid :: 'f

text \<open>The dictionary built at lines 84 to 97, one field for each key.\<close>

record 'f request =
  req_action :: trade_action
  req_symbol :: "'f json"
  req_volume :: 'f
  req_type :: order_type
  req_price :: 'f
  req_sl :: 'f
  req_tp :: 'f
  req_deviation :: int
  req_magic :: int
  req_comment :: string
  req_type_time :: order_time
  req_type_filling :: order_filling

record 'f OrderSendResult =
  res_retcode :: int
  res_order :: int
  res_volume :: 'f
  res_price :: 'f
  res_comment :: string

text \<open>
  The terminal, as the answers it gives to the calls of the script. A query answers
  \<open>None\<close> where the binding returns \<^verbatim>\<open>None\<close>. The account query may also raise: this is
  the failure that the handler of \<^verbatim>\<open>check_connection\<close> is written for.
\<close>

record 'f terminal =
  initialize :: bool
  last_error :: "int \<times> string"
  account_info :: "pyexn + 'f AccountInfo option"
  symbol_info :: "'f json \<Rightarrow> SymbolInfo option"
  symbol_select :: "'f json \<Rightarrow> bool \<Rightarrow> bool"
  symbol_info_tick :: "'f json \<Rightarrow> 'f Tick option"
  order_send :: "'f request \<Rightarrow> 'f OrderSendResult option"

subsection \<open>What a run leaves behind\<close>

datatype 'f call =
    Call_initialize
  | Call_last_error
  | Call_shutdown
  | Call_account_info
  | Call_symbol_info "'f json"
  | Call_symbol_select "'f json" bool
  | Call_symbol_info_tick "'f json"
  | Call_order_send "'f request"

record 'f world =
  stdout :: "'f json list"
  calls :: "'f call list"

definition world0 :: "'f world" where
  "world0 = \<lparr>stdout = [], calls = []\<rparr>"

text \<open>\<^verbatim>\<open>print(json.dumps(j))\<close>\<close>

definition print_json :: "'f json \<Rightarrow> 'f world \<Rightarrow> 'f world" where
  "print_json j w = w\<lparr>stdout := stdout w @ [j]\<rparr>"

definition mt5_call :: "'f call \<Rightarrow> 'f world \<Rightarrow> 'f world" where
  "mt5_call c w = w\<lparr>calls := calls w @ [c]\<rparr>"

section \<open>The script\<close>

subsection \<open>\<^verbatim>\<open>initialize_mt5\<close>, lines 7 to 17\<close>

definition initialize_mt5 :: "'f terminal \<Rightarrow> 'f world \<Rightarrow> 'f world \<times> unit outcome" where
  "initialize_mt5 t w =
     (let w1 = mt5_call Call_initialize w in
      if \<not> initialize t then
        (let w2 = mt5_call Call_last_error w1;
             w3 = print_json (JObj
                    [(''success'', JBool False),
                     (''error'', JObj
                        [(''code'', JList [JInt (fst (last_error t)), JStr (snd (last_error t))]),
                         (''message'', JStr ''MT5 initialization failed'')])]) w2;
             w4 = mt5_call Call_shutdown w3
         in (w4, Exits 1))
      else (w1, Returns ()))"

subsection \<open>\<^verbatim>\<open>check_connection\<close>, lines 19 to 47\<close>

definition connection_error :: "pyexn \<Rightarrow> 'f json" where
  "connection_error e =
     JObj [(''success'', JBool False),
           (''error'', JObj [(''message'', JStr (exn_str e)),
                             (''type'', JStr ''CONNECTION_ERROR'')])]"

definition check_connection :: "'f terminal \<Rightarrow> 'f world \<Rightarrow> 'f world \<times> bool outcome" where
  "check_connection t w =
     (case initialize_mt5 t w of
        (w1, Exits n) \<Rightarrow> (w1, Exits n)
      | (w1, Raises e) \<Rightarrow> (print_json (connection_error e) w1, Returns False)
      | (w1, Returns u) \<Rightarrow>
          (let w2 = mt5_call Call_account_info w1 in
           case account_info t of
             Inl e \<Rightarrow> (print_json (connection_error e) w2, Returns False)
           | Inr info \<Rightarrow>
               (let connected = (info \<noteq> None);
                    result = JObj
                      [(''success'', JBool connected),
                       (''account_info'',
                          (case info of
                             Some a \<Rightarrow> JObj [(''login'', JInt (login a)),
                                             (''server'', JStr (server a)),
                                             (''balance'', JFloat (balance a)),
                                             (''equity'', JFloat (equity a))]
                           | None \<Rightarrow> JNull))];
                    w3 = print_json result w2;
                    w4 = mt5_call Call_shutdown w3
                in (w4, Returns connected))))"

subsection \<open>\<^verbatim>\<open>execute_trade\<close>, lines 49 to 136\<close>

definition required_fields :: "string list" where
  "required_fields = [''symbol'', ''volume'', ''action'', ''tp'', ''sl'']"

text \<open>Python's \<^verbatim>\<open>sub in s\<close> on two strings.\<close>

fun str_contains :: "string \<Rightarrow> string \<Rightarrow> bool" where
  "str_contains sub [] = (sub = [])"
| "str_contains sub (c # cs) = (take (length sub) (c # cs) = sub \<or> str_contains sub cs)"

text \<open>
  \<^verbatim>\<open>field in signal_data\<close>: a key of a dictionary, an element of a list, a substring of
  a string; any other JSON value is not iterable.
\<close>

fun contains :: "'f json \<Rightarrow> string \<Rightarrow> 'f fault + bool" where
  "contains (JObj d) field = Inr (map_of d field \<noteq> None)"
| "contains (JList xs) field = Inr (JStr field \<in> set xs)"
| "contains (JStr s) field = Inr (str_contains field s)"
| "contains v field = Inl (NotIterable v)"

text \<open>The loop of lines 55 to 57; the result is the exception raised, if any.\<close>

fun check_required :: "'f runtime \<Rightarrow> 'f json \<Rightarrow> string list \<Rightarrow> pyexn option" where
  "check_required rt signal_data [] = None"
| "check_required rt signal_data (field # rest) =
     (case contains signal_data field of
        Inl flt \<Rightarrow> Some (TypeError (fault_text rt flt))
      | Inr present \<Rightarrow>
          if \<not> present then Some (ValueError (''Missing required field: '' @ field))
          else check_required rt signal_data rest)"

text \<open>\<^verbatim>\<open>signal_data[key]\<close> with a string key.\<close>

fun getitem :: "'f runtime \<Rightarrow> 'f json \<Rightarrow> string \<Rightarrow> pyexn + 'f json" where
  "getitem rt (JObj d) key =
     (case map_of d key of
        Some v \<Rightarrow> Inr v
      | None \<Rightarrow> Inl (KeyError (fault_text rt (MissingKey key))))"
| "getitem rt v key = Inl (TypeError (fault_text rt (BadSubscript v)))"

text \<open>\<^verbatim>\<open>float(v)\<close> on a value that \<^verbatim>\<open>json.loads\<close> can deliver.\<close>

fun pyfloat :: "'f runtime \<Rightarrow> 'f json \<Rightarrow> pyexn + 'f" where
  "pyfloat rt (JFloat x) = Inr x"
| "pyfloat rt (JInt i) =
     (case float_of_int rt i of
        Some x \<Rightarrow> Inr x
      | None \<Rightarrow> Inl (OverflowError (fault_text rt (FloatOfBigInt i))))"
| "pyfloat rt (JBool b) =
     (case float_of_int rt (if b then 1 else 0) of
        Some x \<Rightarrow> Inr x
      | None \<Rightarrow> Inl (OverflowError (fault_text rt (FloatOfBigInt (if b then 1 else 0)))))"
| "pyfloat rt (JStr s) =
     (case float_of_str rt s of
        Some x \<Rightarrow> Inr x
      | None \<Rightarrow> Inl (ValueError (fault_text rt (FloatOfText s))))"
| "pyfloat rt v = Inl (TypeError (fault_text rt (FloatOfType v)))"

text \<open>Lines 54 to 63: the five local variables symbol, volume, action, tp, sl.\<close>

definition read_signal ::
  "'f runtime \<Rightarrow> 'f json \<Rightarrow> pyexn + ('f json \<times> 'f \<times> 'f json \<times> 'f \<times> 'f)" where
  "read_signal rt signal_data =
     (case check_required rt signal_data required_fields of
        Some e \<Rightarrow> Inl e
      | None \<Rightarrow>
     (case getitem rt signal_data ''symbol'' of
        Inl e \<Rightarrow> Inl e
      | Inr symbol \<Rightarrow>
     (case getitem rt signal_data ''volume'' of
        Inl e \<Rightarrow> Inl e
      | Inr v1 \<Rightarrow>
     (case pyfloat rt v1 of
        Inl e \<Rightarrow> Inl e
      | Inr volume \<Rightarrow>
     (case getitem rt signal_data ''action'' of
        Inl e \<Rightarrow> Inl e
      | Inr action \<Rightarrow>
     (case getitem rt signal_data ''tp'' of
        Inl e \<Rightarrow> Inl e
      | Inr v2 \<Rightarrow>
     (case pyfloat rt v2 of
        Inl e \<Rightarrow> Inl e
      | Inr tp \<Rightarrow>
     (case getitem rt signal_data ''sl'' of
        Inl e \<Rightarrow> Inl e
      | Inr v3 \<Rightarrow>
     (case pyfloat rt v3 of
        Inl e \<Rightarrow> Inl e
      | Inr sl \<Rightarrow> Inr (symbol, volume, action, tp, sl))))))))))"

text \<open>Lines 66 to 77: the instrument is looked up, made visible if it is not, and quoted.\<close>

definition resolve ::
  "'f runtime \<Rightarrow> 'f terminal \<Rightarrow> 'f json \<Rightarrow> 'f world \<Rightarrow> 'f world \<times> 'f Tick outcome" where
  "resolve rt t symbol w =
     (let w1 = mt5_call (Call_symbol_info symbol) w in
      case symbol_info t symbol of
        None \<Rightarrow>
          (w1, Raises (ValueError (''Symbol '' @ format_value rt symbol @ '' not found'')))
      | Some info \<Rightarrow>
          (let w2 = (if \<not> visible info then mt5_call (Call_symbol_select symbol True) w1 else w1) in
           if \<not> visible info \<and> \<not> symbol_select t symbol True then
             (w2, Raises (ValueError (''Symbol '' @ format_value rt symbol @ '' selection failed'')))
           else
             (let w3 = mt5_call (Call_symbol_info_tick symbol) w2 in
              case symbol_info_tick t symbol of
                None \<Rightarrow>
                  (w3, Raises (ValueError (''Failed to get price for '' @ format_value rt symbol)))
              | Some tick \<Rightarrow> (w3, Returns tick))))"

text \<open>Lines 80 to 97.\<close>

definition make_request ::
  "'f json \<Rightarrow> 'f \<Rightarrow> 'f json \<Rightarrow> 'f \<Rightarrow> 'f \<Rightarrow> 'f Tick \<Rightarrow> 'f request" where
  "make_request symbol volume action tp sl tick =
     (let order_type = (if action = JStr ''BUY'' then ORDER_TYPE_BUY else ORDER_TYPE_SELL);
          price = (if action = JStr ''BUY'' then ask tick else bid tick)
      in \<lparr>req_action = TRADE_ACTION_DEAL,
          req_symbol = symbol,
          req_volume = volume,
          req_type = order_type,
          req_price = price,
          req_sl = sl,
          req_tp = tp,
          req_deviation = 10,
          req_magic = 202504,
          req_comment = ''Teaka AutoExec'',
          req_type_time = ORDER_TIME_GTC,
          req_type_filling = ORDER_FILLING_IOC\<rparr>)"

text \<open>Lines 105 to 113.\<close>

definition success_response :: "'f OrderSendResult \<Rightarrow> 'f json" where
  "success_response result =
     JObj [(''success'', JBool True),
           (''order'', JObj [(''ticket'', JInt (res_order result)),
                             (''volume'', JFloat (res_volume result)),
                             (''price'', JFloat (res_price result)),
                             (''comment'', JStr (res_comment result))])]"

text \<open>The body of the \<^verbatim>\<open>try\<close>, lines 51 to 116.\<close>

definition execute_trade_try ::
  "'f runtime \<Rightarrow> 'f terminal \<Rightarrow> 'f json \<Rightarrow> 'f world \<Rightarrow> 'f world \<times> unit outcome" where
  "execute_trade_try rt t signal_data w =
     (case initialize_mt5 t w of
        (w1, Exits n) \<Rightarrow> (w1, Exits n)
      | (w1, Raises e) \<Rightarrow> (w1, Raises e)
      | (w1, Returns u) \<Rightarrow>
     (case read_signal rt signal_data of
        Inl e \<Rightarrow> (w1, Raises e)
      | Inr (symbol, volume, action, tp, sl) \<Rightarrow>
     (case resolve rt t symbol w1 of
        (w2, Exits n) \<Rightarrow> (w2, Exits n)
      | (w2, Raises e) \<Rightarrow> (w2, Raises e)
      | (w2, Returns tick) \<Rightarrow>
          (let request = make_request symbol volume action tp sl tick;
               w3 = mt5_call (Call_order_send request) w2
           in case order_send t request of
                None \<Rightarrow> (w3, Raises (AttributeError (fault_text rt (NoneAttribute ''retcode''))))
              | Some result \<Rightarrow>
                  if res_retcode result \<noteq> TRADE_RETCODE_DONE then
                    (w3, Raises (Exception (''Order failed: '' @ res_comment result)))
                  else
                    (let w4 = print_json (success_response result) w3;
                         w5 = mt5_call Call_shutdown w4
                     in (w5, Returns ()))))))"

definition trade_error :: "string \<Rightarrow> pyexn \<Rightarrow> 'f json" where
  "trade_error kind e =
     JObj [(''success'', JBool False),
           (''error'', JObj [(''type'', JStr kind),
                             (''message'', JStr (exn_str e))])]"

text \<open>The two handlers, lines 118 to 136, tried in the order of the source.\<close>

definition execute_trade ::
  "'f runtime \<Rightarrow> 'f terminal \<Rightarrow> 'f json \<Rightarrow> 'f world \<Rightarrow> 'f world \<times> unit outcome" where
  "execute_trade rt t signal_data w =
     (case execute_trade_try rt t signal_data w of
        (w1, Returns u) \<Rightarrow> (w1, Returns ())
      | (w1, Exits n) \<Rightarrow> (w1, Exits n)
      | (w1, Raises e) \<Rightarrow>
          if is_ValueError e then
            (mt5_call Call_shutdown (print_json (trade_error ''VALIDATION_ERROR'' e) w1), Returns ())
          else
            (mt5_call Call_shutdown (print_json (trade_error ''EXECUTION_ERROR'' e) w1), Returns ()))"

subsection \<open>The entry point, lines 138 to 157\<close>

text \<open>
  The exit status of the process: 0 when the script runs to its end, the argument of
  \<^verbatim>\<open>sys.exit\<close> otherwise, and 1 for an exception that nothing catches.
\<close>

fun exit_status :: "'a outcome \<Rightarrow> int" where
  "exit_status (Returns x) = 0"
| "exit_status (Exits n) = n"
| "exit_status (Raises e) = 1"

definition invalid_json :: "'f json" where
  "invalid_json =
     JObj [(''success'', JBool False),
           (''error'', JObj [(''type'', JStr ''INVALID_JSON''),
                             (''message'', JStr ''Failed to parse signal data'')])]"

text \<open>The body of the \<^verbatim>\<open>try\<close>, lines 147 to 149.\<close>

definition main_try ::
  "'f runtime \<Rightarrow> 'f terminal \<Rightarrow> string \<Rightarrow> 'f world \<Rightarrow> 'f world \<times> unit outcome" where
  "main_try rt t stdin_bytes w =
     (case stdin_read rt stdin_bytes of
        Inl e \<Rightarrow> (w, Raises e)
      | Inr text \<Rightarrow>
     (case json_loads rt text of
        Inl e \<Rightarrow> (w, Raises e)
      | Inr signal_data \<Rightarrow> execute_trade rt t signal_data w))"

text \<open>
  The one handler, lines 150 to 157: it matches a JSONDecodeError; any other exception
  leaves the script uncaught.
\<close>

definition main_except :: "'f world \<times> unit outcome \<Rightarrow> 'f world \<times> unit outcome" where
  "main_except r =
     (case r of
        (w, Raises e) \<Rightarrow>
          if is_JSONDecodeError e then (print_json invalid_json w, Returns ())
          else (w, Raises e)
      | (w, Returns u) \<Rightarrow> (w, Returns u)
      | (w, Exits n) \<Rightarrow> (w, Exits n))"

text \<open>
  The arguments are the flag \<^verbatim>\<open>--check-connection\<close> and the bytes on standard input;
  the result is what the run leaves behind, and the exit status.
\<close>

definition main :: "'f runtime \<Rightarrow> 'f terminal \<Rightarrow> bool \<Rightarrow> string \<Rightarrow> 'f world \<times> int" where
  "main rt t check_connection_flag stdin_bytes =
     (if check_connection_flag then
        (case check_connection t world0 of (w, res) \<Rightarrow> (w, exit_status res))
      else
        (case main_except (main_try rt t stdin_bytes world0) of
           (w, res) \<Rightarrow> (w, exit_status res)))"

section \<open>Observing a run\<close>

text \<open>The requests handed to \<^verbatim>\<open>mt5.order_send\<close> during a run, in order.\<close>

fun order_requests :: "'f call list \<Rightarrow> 'f request list" where
  "order_requests [] = []"
| "order_requests (Call_order_send r # cs) = r # order_requests cs"
| "order_requests (c # cs) = order_requests cs"

fun json_get :: "'f json \<Rightarrow> string \<Rightarrow> 'f json option" where
  "json_get (JObj d) key = map_of d key"
| "json_get v key = None"

text \<open>The value under \<^verbatim>\<open>error.type\<close> of a printed document, if there is one.\<close>

definition error_type :: "'f json \<Rightarrow> 'f json option" where
  "error_type j = (case json_get j ''error'' of None \<Rightarrow> None | Some e \<Rightarrow> json_get e ''type'')"

text \<open>The values under \<^verbatim>\<open>account_info\<close> of the documents printed, in order.\<close>

definition account_info_values :: "'f world \<Rightarrow> 'f json option list" where
  "account_info_values w = map (\<lambda>j. json_get j ''account_info'') (stdout w)"

section \<open>Sample inputs\<close>

text \<open>
  A sample interpreter, with floats read as reals and the wording of CPython 3.12 for its
  own exceptions, and sample terminals: one that accepts every order, one that rejects
  every order for lack of funds, one that cannot be initialised, one without an account
  session, one whose account query raises, and one that knows no symbol. The sample
  interpreter stands for CPython on the inputs evaluated below only: it converts every
  integer exactly, reads three decimal strings, and writes dots for \<^verbatim>\<open>str\<close> of a number
  or a container.
\<close>

definition quoted :: "string \<Rightarrow> string" where
  "quoted s = CHR 0x27 # s @ [CHR 0x27]"

fun type_name :: "'f json \<Rightarrow> string" where
  "type_name JNull = ''NoneType''"
| "type_name (JBool b) = ''bool''"
| "type_name (JInt i) = ''int''"
| "type_name (JFloat x) = ''float''"
| "type_name (JStr s) = ''str''"
| "type_name (JList xs) = ''list''"
| "type_name (JObj d) = ''dict''"

fun sample_fault_text :: "'f fault \<Rightarrow> string" where
  "sample_fault_text (NotIterable v) =
     ''argument of type '' @ quoted (type_name v) @ '' is not iterable''"
| "sample_fault_text (BadSubscript (JList xs)) =
     ''list indices must be integers or slices, not str''"
| "sample_fault_text (BadSubscript (JStr s)) =
     ''string indices must be integers, not '' @ quoted ''str''"
| "sample_fault_text (BadSubscript v) =
     quoted (type_name v) @ '' object is not subscriptable''"
| "sample_fault_text (MissingKey k) = quoted k"
| "sample_fault_text (FloatOfText s) = ''could not convert string to float: '' @ quoted s"
| "sample_fault_text (FloatOfType v) =
     ''float() argument must be a string or a real number, not '' @ quoted (type_name v)"
| "sample_fault_text (FloatOfBigInt i) = ''int too large to convert to float''"
| "sample_fault_text (NoneAttribute a) =
     quoted ''NoneType'' @ '' object has no attribute '' @ quoted a"

fun sample_str_of :: "'f json \<Rightarrow> string" where
  "sample_str_of JNull = ''None''"
| "sample_str_of (JBool b) = (if b then ''True'' else ''False'')"
| "sample_str_of (JStr s) = s"
| "sample_str_of v = ''...''"

definition sample_fields :: "(string \<times> real json) list" where
  "sample_fields =
     [(''symbol'', JStr ''EURUSD''), (''volume'', JFloat (1 / 10)), (''action'', JStr ''BUY''),
      (''tp'', JFloat (12 / 10)), (''sl'', JFloat (11 / 10))]"

definition sample_signal :: "real json" where
  "sample_signal = JObj sample_fields"

definition sample_text :: string where
  \<open>sample_text =
     ''{"symbol": "EURUSD", "volume": 0.1, "action": "BUY", "tp": 1.2, "sl": 1.1}''\<close>

text \<open>A thousand opening brackets: more levels than the parser has stack for.\<close>

definition deep_text :: string where
  "deep_text = CHR ''['' # replicate 999 (CHR ''['')"

text \<open>
  The sample interpreter reads standard input as UTF-8, where the byte FF cannot occur,
  and its parser knows four texts.
\<close>

definition sample_stdin_read :: "string \<Rightarrow> pyexn + string" where
  "sample_stdin_read bytes =
     (if CHR 0xFF \<in> set bytes
      then Inl (UnicodeDecodeError ''invalid start byte'')
      else Inr bytes)"

definition sample_json_loads :: "string \<Rightarrow> pyexn + real json" where
  "sample_json_loads text =
     (if text = sample_text then Inr sample_signal
      else if text = ''null'' then Inr JNull
      else if text = deep_text
        then Inl (RecursionError ''maximum recursion depth exceeded while decoding a JSON array'')
      else Inl (JSONDecodeError ''Expecting value''))"

definition sample_runtime :: "real runtime" where
  "sample_runtime =
     \<lparr>stdin_read = sample_stdin_read,
      json_loads = sample_json_loads,
      float_of_str = map_of [(''0.1'', 1 / 10), (''1.2'', 12 / 10), (''1.1'', 11 / 10)],
      float_of_int = (\<lambda>i. Some (of_int i)),
      str_of = sample_str_of,
      fault_text = sample_fault_text\<rparr>"

definition sample_account :: "real AccountInfo" where
  "sample_account = \<lparr>login = 5001, server = ''Demo-Server'', balance = 1000, equity = 1005\<rparr>"

definition sample_tick :: "real Tick" where
  "sample_tick = \<lparr>ask = 10852 / 10000, bid = 10850 / 10000\<rparr>"

definition sample_terminal :: "real terminal" where
  "sample_terminal =
     \<lparr>initialize = True,
      last_error = (1, ''Success''),
      account_info = Inr (Some sample_account),
      symbol_info = (\<lambda>s. if s = JStr ''EURUSD'' then Some \<lparr>visible = True\<rparr> else None),
      symbol_select = (\<lambda>s enable. True),
      symbol_info_tick = (\<lambda>s. if s = JStr ''EURUSD'' then Some sample_tick else None),
      order_send = (\<lambda>r. Some \<lparr>res_retcode = 10009, res_order = 7001,
                               res_volume = req_volume r, res_price = req_price r,
                               res_comment = ''Request executed''\<rparr>)\<rparr>"

definition rejecting_terminal :: "real terminal" where
  "rejecting_terminal =
     sample_terminal
       \<lparr>order_send := (\<lambda>r. Some \<lparr>res_retcode = 10019, res_order = 0,
                                   res_volume = 0, res_price = 0,
                                   res_comment = ''No money''\<rparr>)\<rparr>"

definition closed_terminal :: "real terminal" where
  "closed_terminal =
     sample_terminal\<lparr>initialize := False, last_error := (- 10003, ''IPC initialize failed'')\<rparr>"

definition logged_out_terminal :: "real terminal" where
  "logged_out_terminal = sample_terminal\<lparr>account_info := Inr None\<rparr>"

definition raising_terminal :: "real terminal" where
  "raising_terminal = sample_terminal\<lparr>account_info := Inl (RuntimeError ''IPC timeout'')\<rparr>"

definition other_terminal :: "real terminal" where
  "other_terminal =
     rejecting_terminal\<lparr>last_error := (0, ''none''), symbol_info := (\<lambda>s. None)\<rparr>"

definition hold_fields :: "(string \<times> real json) list" where
  "hold_fields =
     [(''symbol'', JStr ''EURUSD''), (''volume'', JStr ''0.1''), (''action'', JStr ''HOLD''),
      (''tp'', JInt 1), (''sl'', JFloat (11 / 10))]"

definition null_volume_fields :: "(string \<times> real json) list" where
  "null_volume_fields =
     [(''symbol'', JStr ''EURUSD''), (''volume'', JNull), (''action'', JStr ''BUY''),
      (''tp'', JFloat (12 / 10)), (''sl'', JFloat (11 / 10))]"

definition text_volume_fields :: "(string \<times> real json) list" where
  "text_volume_fields =
     [(''symbol'', JStr ''EURUSD''), (''volume'', JStr ''abc''), (''action'', JStr ''BUY''),
      (''tp'', JFloat (12 / 10)), (''sl'', JFloat (11 / 10))]"

definition no_tp_fields :: "(string \<times> real json) list" where
  "no_tp_fields =
     [(''symbol'', JStr ''EURUSD''), (''volume'', JFloat (1 / 10)), (''action'', JStr ''BUY'')]"

section \<open>Stepping through a run\<close>

lemma order_requests_append:
  "order_requests (xs @ ys) = order_requests xs @ order_requests ys"
  by (induction xs rule: order_requests.induct) simp_all

lemma initialize_mt5_ok:
  "initialize t \<Longrightarrow> initialize_mt5 t w = (mt5_call Call_initialize w, Returns ())"
  by (simp add: initialize_mt5_def)

lemma initialize_mt5_fail:
  "\<not> initialize t \<Longrightarrow>
     initialize_mt5 t world0 =
       (\<lparr>stdout = [JObj [(''success'', JBool False),
                         (''error'', JObj
                            [(''code'', JList [JInt (fst (last_error t)), JStr (snd (last_error t))]),
                             (''message'', JStr ''MT5 initialization failed'')])]],
         calls = [Call_initialize, Call_last_error, Call_shutdown]\<rparr>, Exits 1)"
  by (simp add: initialize_mt5_def Let_def mt5_call_def print_json_def world0_def)

text \<open>On a dictionary the loop of lines 55 to 57 stops at the first key that is absent.\<close>

lemma check_required_first_missing:
  "\<forall>f\<in>set pre. map_of d f \<noteq> None \<Longrightarrow> map_of d name = None \<Longrightarrow>
     check_required rt (JObj d) (pre @ name # post) =
       Some (ValueError (''Missing required field: '' @ name))"
  by (induction pre) auto

lemma check_required_all_present:
  "\<forall>f\<in>set fs. map_of d f \<noteq> None \<Longrightarrow> check_required rt (JObj d) fs = None"
  by (induction fs) auto

lemma read_signal_dict:
  assumes "map_of d ''symbol'' = Some symbol" and "map_of d ''volume'' = Some v1"
    and "map_of d ''action'' = Some action" and "map_of d ''tp'' = Some v2"
    and "map_of d ''sl'' = Some v3"
  shows "read_signal rt (JObj d) =
           (case pyfloat rt v1 of
              Inl e \<Rightarrow> Inl e
            | Inr volume \<Rightarrow>
           (case pyfloat rt v2 of
              Inl e \<Rightarrow> Inl e
            | Inr tp \<Rightarrow>
           (case pyfloat rt v3 of
              Inl e \<Rightarrow> Inl e
            | Inr sl \<Rightarrow> Inr (symbol, volume, action, tp, sl))))"
proof -
  have "check_required rt (JObj d) required_fields = None"
    using assms by (intro check_required_all_present) (auto simp: required_fields_def)
  then show ?thesis
    using assms by (simp add: read_signal_def split: sum.splits)
qed

lemma read_signal_action:
  "read_signal rt sd = Inr (symbol, volume, action, tp, sl) \<Longrightarrow>
     getitem rt sd ''symbol'' = Inr symbol \<and> getitem rt sd ''action'' = Inr action"
  by (auto simp: read_signal_def split: option.splits sum.splits)

text \<open>
  Lines 66 to 77 print nothing and submit nothing; they end with a quote of the terminal
  or with a ValueError.
\<close>

lemma resolve_frame:
  "resolve rt t symbol w = (w', r) \<Longrightarrow>
     order_requests (calls w') = order_requests (calls w) \<and> stdout w' = stdout w
     \<and> (case r of Returns tick \<Rightarrow> symbol_info_tick t symbol = Some tick
                 | Raises e \<Rightarrow> is_ValueError e
                 | Exits n \<Rightarrow> False)"
  by (auto simp: resolve_def Let_def mt5_call_def order_requests_append
           split: option.splits if_splits)

lemma resolve_ok:
  "symbol_info t symbol = Some info \<Longrightarrow> visible info \<or> symbol_select t symbol True \<Longrightarrow>
   symbol_info_tick t symbol = Some tick \<Longrightarrow>
     \<exists>w'. resolve rt t symbol w = (w', Returns tick)"
  by (auto simp: resolve_def Let_def)

lemma try_init_fail:
  "\<not> initialize t \<Longrightarrow>
     execute_trade_try rt t sd w = (fst (initialize_mt5 t w), Exits 1)"
  by (simp add: execute_trade_try_def initialize_mt5_def Let_def)

lemma try_read_fail:
  "initialize t \<Longrightarrow> read_signal rt sd = Inl e \<Longrightarrow>
     execute_trade_try rt t sd w = (mt5_call Call_initialize w, Raises e)"
  by (simp add: execute_trade_try_def initialize_mt5_ok)

lemma try_resolve_fail:
  "initialize t \<Longrightarrow> read_signal rt sd = Inr (symbol, volume, action, tp, sl) \<Longrightarrow>
   resolve rt t symbol (mt5_call Call_initialize w) = (w2, Raises e) \<Longrightarrow>
     execute_trade_try rt t sd w = (w2, Raises e)"
  by (simp add: execute_trade_try_def initialize_mt5_ok)

lemma try_submit:
  "initialize t \<Longrightarrow> read_signal rt sd = Inr (symbol, volume, action, tp, sl) \<Longrightarrow>
   resolve rt t symbol (mt5_call Call_initialize w) = (w2, Returns tick) \<Longrightarrow>
     execute_trade_try rt t sd w =
       (case order_send t (make_request symbol volume action tp sl tick) of
          None \<Rightarrow>
            (mt5_call (Call_order_send (make_request symbol volume action tp sl tick)) w2,
             Raises (AttributeError (fault_text rt (NoneAttribute ''retcode''))))
        | Some result \<Rightarrow>
            if res_retcode result \<noteq> TRADE_RETCODE_DONE then
              (mt5_call (Call_order_send (make_request symbol volume action tp sl tick)) w2,
               Raises (Exception (''Order failed: '' @ res_comment result)))
            else
              (mt5_call Call_shutdown (print_json (success_response result)
                 (mt5_call (Call_order_send (make_request symbol volume action tp sl tick)) w2)),
               Returns ()))"
  by (simp add: execute_trade_try_def initialize_mt5_ok Let_def split: option.splits)

text \<open>
  The four ways through \<^verbatim>\<open>execute_trade\<close>, each with what it prints and what it
  submits: the session cannot be opened; lines 54 to 63 raise; lines 66 to 77 raise;
  the order is submitted.
\<close>

lemma execute_trade_cases:
  obtains
    (closed) "\<not> initialize t"
      "execute_trade rt t sd world0 = (fst (initialize_mt5 t world0), Exits 1)"
  | (unread) e where "initialize t" "read_signal rt sd = Inl e"
      "stdout (fst (execute_trade rt t sd world0)) =
         [trade_error (if is_ValueError e then ''VALIDATION_ERROR'' else ''EXECUTION_ERROR'') e]"
      "order_requests (calls (fst (execute_trade rt t sd world0))) = []"
      "snd (execute_trade rt t sd world0) = Returns ()"
      "Call_shutdown \<in> set (calls (fst (execute_trade rt t sd world0)))"
  | (unresolved) symbol volume action tp sl e where "initialize t"
      "read_signal rt sd = Inr (symbol, volume, action, tp, sl)"
      "snd (resolve rt t symbol (mt5_call Call_initialize world0)) = Raises e"
      "is_ValueError e"
      "stdout (fst (execute_trade rt t sd world0)) = [trade_error ''VALIDATION_ERROR'' e]"
      "order_requests (calls (fst (execute_trade rt t sd world0))) = []"
      "snd (execute_trade rt t sd world0) = Returns ()"
      "Call_shutdown \<in> set (calls (fst (execute_trade rt t sd world0)))"
  | (submitted) symbol volume action tp sl tick where "initialize t"
      "read_signal rt sd = Inr (symbol, volume, action, tp, sl)"
      "symbol_info_tick t symbol = Some tick"
      "order_requests (calls (fst (execute_trade rt t sd world0))) =
         [make_request symbol volume action tp sl tick]"
      "stdout (fst (execute_trade rt t sd world0)) =
         [case order_send t (make_request symbol volume action tp sl tick) of
            None \<Rightarrow> trade_error ''EXECUTION_ERROR''
                      (AttributeError (fault_text rt (NoneAttribute ''retcode'')))
          | Some result \<Rightarrow>
              if res_retcode result \<noteq> TRADE_RETCODE_DONE
              then trade_error ''EXECUTION_ERROR''
                     (Exception (''Order failed: '' @ res_comment result))
              else success_response result]"
      "snd (execute_trade rt t sd world0) = Returns ()"
      "Call_shutdown \<in> set (calls (fst (execute_trade rt t sd world0)))"
proof (cases "initialize t")
  case False
  then show ?thesis
    by (intro closed) (simp_all add: execute_trade_def try_init_fail)
next
  case init: True
  show ?thesis
  proof (cases "read_signal rt sd")
    case (Inl e)
    with init show ?thesis
      by (intro unread [of e])
         (simp_all add: execute_trade_def try_read_fail world0_def mt5_call_def print_json_def)
  next
    case (Inr p)
    then obtain symbol volume action tp sl
      where rd: "read_signal rt sd = Inr (symbol, volume, action, tp, sl)"
      by (cases p) auto
    obtain w2 r2 where rs: "resolve rt t symbol (mt5_call Call_initialize world0) = (w2, r2)"
      by (cases "resolve rt t symbol (mt5_call Call_initialize world0)") auto
    from resolve_frame [OF rs]
    have fr: "order_requests (calls w2) = []" "stdout w2 = []"
      and r2: "case r2 of Returns tick \<Rightarrow> symbol_info_tick t symbol = Some tick
                 | Raises e \<Rightarrow> is_ValueError e | Exits n \<Rightarrow> False"
      by (simp_all add: world0_def mt5_call_def)
    show ?thesis
    proof (cases r2)
      case (Returns tick)
      with r2 have tk: "symbol_info_tick t symbol = Some tick" by simp
      from init rd rs Returns fr show ?thesis
        by (intro submitted [OF init rd tk])
           (auto simp: execute_trade_def try_submit mt5_call_def print_json_def
                       order_requests_append split: option.splits)
    next
      case (Raises e)
      with r2 have ve: "is_ValueError e" by simp
      from init rd rs Raises fr ve show ?thesis
        by (intro unresolved [OF init rd _ ve])
           (simp_all add: execute_trade_def try_resolve_fail mt5_call_def print_json_def
                          order_requests_append)
    next
      case (Exits n)
      with r2 show ?thesis by simp
    qed
  qed
qed

lemma execute_trade_submits:
  assumes init: "initialize t"
    and rd: "read_signal rt sd = Inr (symbol, volume, action, tp, sl)"
    and info: "symbol_info t symbol = Some info"
    and vis: "visible info \<or> symbol_select t symbol True"
    and tk: "symbol_info_tick t symbol = Some tick"
  shows "order_requests (calls (fst (execute_trade rt t sd world0))) =
           [make_request symbol volume action tp sl tick]"
proof -
  from resolve_ok [OF info vis tk]
  obtain w2 where rs: "resolve rt t symbol (mt5_call Call_initialize world0) = (w2, Returns tick)"
    by blast
  from resolve_frame [OF rs] have "order_requests (calls w2) = []"
    by (simp add: world0_def mt5_call_def)
  then show ?thesis
    by (simp add: execute_trade_def try_submit [OF init rd rs] mt5_call_def print_json_def
                  order_requests_append split: option.splits)
qed

lemma execute_trade_shuts_down:
  "Call_shutdown \<in> set (calls (fst (execute_trade rt t sd world0)))"
proof (cases rule: execute_trade_cases [of t rt sd])
  case closed
  then show ?thesis by (simp add: initialize_mt5_fail)
qed

lemma check_connection_shuts_down:
  "account_info t = Inr info \<Longrightarrow> Call_shutdown \<in> set (calls (fst (check_connection t world0)))"
  by (cases "initialize t")
     (simp_all add: check_connection_def initialize_mt5_fail initialize_mt5_ok Let_def
                    mt5_call_def print_json_def)

lemma error_type_trade_error [simp]: "error_type (trade_error kind e) = Some (JStr kind)"
  by (simp add: error_type_def trade_error_def)

lemma error_type_success_response [simp]: "error_type (success_response result) = None"
  by (simp add: error_type_def success_response_def)

text \<open>
  A volume that \<^verbatim>\<open>float\<close> refuses: the kind reported is decided by the class of the
  exception, VALIDATION_ERROR for a ValueError and EXECUTION_ERROR for any other.
\<close>

lemma volume_coercion_failure:
  assumes "initialize t"
    and "map_of d ''symbol'' = Some symbol" and "map_of d ''volume'' = Some v1"
    and "map_of d ''action'' = Some action" and "map_of d ''tp'' = Some v2"
    and "map_of d ''sl'' = Some v3"
    and "pyfloat rt v1 = Inl e"
  shows "stdout (fst (execute_trade rt t (JObj d) world0)) =
           [trade_error (if is_ValueError e then ''VALIDATION_ERROR'' else ''EXECUTION_ERROR'') e]"
proof -
  have "read_signal rt (JObj d) = Inl e"
    using assms by (simp add: read_signal_dict)
  with assms(1) show ?thesis
    by (simp add: execute_trade_def try_read_fail world0_def mt5_call_def print_json_def)
qed

section \<open>The order request\<close>

text \<open>
  C1. A signal with all five fields, whose volume, tp and sl are accepted by \<^verbatim>\<open>float\<close>,
  whose symbol the terminal knows and shows (or can be made to show) and quotes, is
  submitted exactly once, and the request holds the signal's symbol, the coerced volume,
  sl and tp, the price selected from the quote, and the fixed fields: the deal action,
  deviation 10, magic 202504, the comment \<^verbatim>\<open>Teaka AutoExec\<close>, good-till-cancelled and
  immediate-or-cancel.
\<close>

theorem order_request_contents:
  assumes "initialize t"
    and "map_of d ''symbol'' = Some symbol" and "map_of d ''volume'' = Some v1"
    and "map_of d ''action'' = Some action" and "map_of d ''tp'' = Some v2"
    and "map_of d ''sl'' = Some v3"
    and "pyfloat rt v1 = Inr volume" and "pyfloat rt v2 = Inr tp" and "pyfloat rt v3 = Inr sl"
    and "symbol_info t symbol = Some info"
    and "visible info \<or> symbol_select t symbol True"
    and "symbol_info_tick t symbol = Some tick"
  shows "order_requests (calls (fst (execute_trade rt t (JObj d) world0))) =
           [\<lparr>req_action = TRADE_ACTION_DEAL,
             req_symbol = symbol,
             req_volume = volume,
             req_type = (if action = JStr ''BUY'' then ORDER_TYPE_BUY else ORDER_TYPE_SELL),
             req_price = (if action = JStr ''BUY'' then ask tick else bid tick),
             req_sl = sl,
             req_tp = tp,
             req_deviation = 10,
             req_magic = 202504,
             req_comment = ''Teaka AutoExec'',
             req_type_time = ORDER_TIME_GTC,
             req_type_filling = ORDER_FILLING_IOC\<rparr>]"
proof -
  have rd: "read_signal rt (JObj d) = Inr (symbol, volume, action, tp, sl)"
    using assms by (simp add: read_signal_dict)
  from execute_trade_submits [OF assms(1) rd assms(10) assms(11) assms(12)]
  show ?thesis by (simp add: make_request_def Let_def)
qed

theorem order_request_contents_witness:
  "initialize sample_terminal
   \<and> pyfloat sample_runtime (JStr ''0.1'') = Inr (1 / 10)
   \<and> pyfloat sample_runtime (JInt 1) = Inr 1
   \<and> symbol_info_tick sample_terminal (JStr ''EURUSD'') = Some sample_tick
   \<and> order_requests (calls (fst (execute_trade sample_runtime sample_terminal
                                     (JObj hold_fields) world0))) =
       [\<lparr>req_action = TRADE_ACTION_DEAL,
         req_symbol = JStr ''EURUSD'',
         req_volume = 1 / 10,
         req_type = ORDER_TYPE_SELL,
         req_price = bid sample_tick,
         req_sl = 11 / 10,
         req_tp = 1,
         req_deviation = 10,
         req_magic = 202504,
         req_comment = ''Teaka AutoExec'',
         req_type_time = ORDER_TIME_GTC,
         req_type_filling = ORDER_FILLING_IOC\<rparr>]"
  using order_request_contents [where t = sample_terminal and rt = sample_runtime
      and d = hold_fields and symbol = "JStr ''EURUSD''" and ?v1.0 = "JStr ''0.1''"
      and action = "JStr ''HOLD''" and ?v2.0 = "JInt 1" and ?v3.0 = "JFloat (11 / 10)"
      and volume = "1 / 10" and tp = 1 and sl = "11 / 10"
      and info = "\<lparr>visible = True\<rparr>" and tick = sample_tick]
  by (simp add: sample_terminal_def sample_runtime_def hold_fields_def)

text \<open>
  C2. Whenever an order is submitted, its side and price follow the action field of the
  signal: the string BUY gives a buy order at the ask price of the quote, any other
  value gives a sell order at the bid price.
\<close>

theorem order_side_and_price:
  assumes "r \<in> set (order_requests (calls (fst (execute_trade rt t sd world0))))"
  shows "\<exists>action tick.
           getitem rt sd ''action'' = Inr action
           \<and> symbol_info_tick t (req_symbol r) = Some tick
           \<and> (if action = JStr ''BUY''
              then req_type r = ORDER_TYPE_BUY \<and> req_price r = ask tick
              else req_type r = ORDER_TYPE_SELL \<and> req_price r = bid tick)"
proof (cases rule: execute_trade_cases [of t rt sd])
  case closed
  with assms show ?thesis by (simp add: initialize_mt5_fail)
next
  case (unread e)
  with assms show ?thesis by simp
next
  case (unresolved symbol volume action tp sl e)
  with assms show ?thesis by simp
next
  case (submitted symbol volume action tp sl tick)
  with assms have r: "r = make_request symbol volume action tp sl tick" by simp
  from read_signal_action [OF submitted(2)]
  have "getitem rt sd ''action'' = Inr action" by simp
  moreover have "symbol_info_tick t (req_symbol r) = Some tick"
    using submitted(3) r by (simp add: make_request_def Let_def)
  ultimately show ?thesis
    using r by (auto simp: make_request_def Let_def)
qed

theorem order_side_and_price_witness:
  "make_request (JStr ''EURUSD'') (1 / 10) (JStr ''HOLD'') 1 (11 / 10) sample_tick
     \<in> set (order_requests (calls (fst (execute_trade sample_runtime sample_terminal
                                          (JObj hold_fields) world0))))
   \<and> getitem sample_runtime (JObj hold_fields) ''action'' = Inr (JStr ''HOLD'')
   \<and> req_type (make_request (JStr ''EURUSD'') (1 / 10) (JStr ''HOLD'') 1 (11 / 10) sample_tick)
       = ORDER_TYPE_SELL
   \<and> req_price (make_request (JStr ''EURUSD'') (1 / 10) (JStr ''HOLD'') 1 (11 / 10) sample_tick)
       = bid sample_tick"
proof -
  have run: "order_requests (calls (fst (execute_trade sample_runtime sample_terminal
                                            (JObj hold_fields) world0))) =
               [make_request (JStr ''EURUSD'') (1 / 10) (JStr ''HOLD'') 1 (11 / 10) sample_tick]"
    by (simp add: execute_trade_def execute_trade_try_def initialize_mt5_def read_signal_def
                  required_fields_def resolve_def make_request_def Let_def mt5_call_def
                  print_json_def world0_def sample_terminal_def sample_runtime_def
                  hold_fields_def TRADE_RETCODE_DONE_def)
  then have mem: "make_request (JStr ''EURUSD'') (1 / 10) (JStr ''HOLD'') 1 (11 / 10) sample_tick
     \<in> set (order_requests (calls (fst (execute_trade sample_runtime sample_terminal
                                          (JObj hold_fields) world0))))"
    by simp
  from order_side_and_price [OF mem] mem show ?thesis
    by (auto simp: make_request_def Let_def hold_fields_def)
qed

section \<open>Validation failures\<close>

text \<open>
  C3. A signal object that lacks one of the five required keys is answered with one
  document, of type VALIDATION_ERROR, whose message names the first absent key in the
  order symbol, volume, action, tp, sl: every key before it in that order is present.
\<close>

theorem missing_field_reported:
  assumes "initialize t"
    and "required_fields = pre @ name # post"
    and "\<forall>f\<in>set pre. map_of d f \<noteq> None"
    and "map_of d name = None"
  shows "stdout (fst (execute_trade rt t (JObj d) world0)) =
           [JObj [(''success'', JBool False),
                  (''error'', JObj [(''type'', JStr ''VALIDATION_ERROR''),
                                    (''message'', JStr (''Missing required field: '' @ name))])]]"
proof -
  have "check_required rt (JObj d) required_fields =
          Some (ValueError (''Missing required field: '' @ name))"
    using check_required_first_missing [OF assms(3) assms(4), of rt post]
    by (simp only: assms(2))
  then have "read_signal rt (JObj d) = Inl (ValueError (''Missing required field: '' @ name))"
    by (simp add: read_signal_def)
  with assms(1) show ?thesis
    by (simp add: execute_trade_def try_read_fail trade_error_def world0_def mt5_call_def
                  print_json_def)
qed

theorem missing_field_reported_witness:
  "initialize sample_terminal
   \<and> required_fields = [''symbol'', ''volume'', ''action''] @ ''tp'' # [''sl'']
   \<and> map_of no_tp_fields ''symbol'' \<noteq> None
   \<and> map_of no_tp_fields ''volume'' \<noteq> None
   \<and> map_of no_tp_fields ''action'' \<noteq> None
   \<and> map_of no_tp_fields ''tp'' = None
   \<and> map_of no_tp_fields ''sl'' = None
   \<and> stdout (fst (execute_trade sample_runtime sample_terminal (JObj no_tp_fields) world0)) =
       [JObj [(''success'', JBool False),
              (''error'', JObj [(''type'', JStr ''VALIDATION_ERROR''),
                                (''message'', JStr ''Missing required field: tp'')])]]"
  using missing_field_reported [where t = sample_terminal and rt = sample_runtime
      and d = no_tp_fields and pre = "[''symbol'', ''volume'', ''action'']"
      and name = "''tp''" and post = "[''sl'']"]
  by (simp add: sample_terminal_def no_tp_fields_def required_fields_def)

text \<open>
  C4, at the input \<^verbatim>\<open>{"symbol": "EURUSD", "volume": null, "action": "BUY", "tp": 1.2,
  "sl": 1.1}\<close>: all five keys are present and the volume is not numeric; \<^verbatim>\<open>float(None)\<close>
  raises a TypeError, which the clause \<^verbatim>\<open>except ValueError\<close> does not match, and the
  answer is of type EXECUTION_ERROR. A volume that is a string without a number, as in
  \<open>text_volume_fields\<close>, is answered with VALIDATION_ERROR.
\<close>

theorem null_volume_is_execution_error:
  "map (\<lambda>f. map_of null_volume_fields f \<noteq> None) required_fields
     = [True, True, True, True, True]
   \<and> stdout (fst (execute_trade sample_runtime sample_terminal (JObj null_volume_fields) world0)) =
       [JObj [(''success'', JBool False),
              (''error'', JObj [(''type'', JStr ''EXECUTION_ERROR''),
                                (''message'', JStr (sample_fault_text
                                    (FloatOfType (JNull :: real json))))])]]
   \<and> stdout (fst (execute_trade sample_runtime sample_terminal (JObj text_volume_fields) world0)) =
       [JObj [(''success'', JBool False),
              (''error'', JObj [(''type'', JStr ''VALIDATION_ERROR''),
                                (''message'', JStr (sample_fault_text
                                    (FloatOfText ''abc'' :: real fault)))])]]"
proof -
  have "pyfloat sample_runtime JNull = Inl (TypeError (sample_fault_text (FloatOfType (JNull :: real json))))"
    by (simp add: sample_runtime_def)
  from volume_coercion_failure [where t = sample_terminal and rt = sample_runtime
      and d = null_volume_fields and ?v1.0 = JNull, OF _ _ _ _ _ _ this]
  have a: "stdout (fst (execute_trade sample_runtime sample_terminal (JObj null_volume_fields) world0)) =
       [trade_error ''EXECUTION_ERROR'' (TypeError (sample_fault_text (FloatOfType (JNull :: real json))))]"
    by (simp add: sample_terminal_def null_volume_fields_def)
  have "pyfloat sample_runtime (JStr ''abc'')
          = Inl (ValueError (sample_fault_text (FloatOfText ''abc'' :: real fault)))"
    by (simp add: sample_runtime_def)
  from volume_coercion_failure [where t = sample_terminal and rt = sample_runtime
      and d = text_volume_fields and ?v1.0 = "JStr ''abc''", OF _ _ _ _ _ _ this]
  have b: "stdout (fst (execute_trade sample_runtime sample_terminal (JObj text_volume_fields) world0)) =
       [trade_error ''VALIDATION_ERROR'' (ValueError (sample_fault_text (FloatOfText ''abc'' :: real fault)))]"
    by (simp add: sample_terminal_def text_volume_fields_def)
  have c: "map (\<lambda>f. map_of null_volume_fields f \<noteq> None) required_fields
     = [True, True, True, True, True]"
    by (simp add: required_fields_def null_volume_fields_def)
  from a b c show ?thesis
    by (simp only: trade_error_def exn_str.simps simp_thms)
qed

section \<open>A rejected order\<close>

text \<open>
  C5, as the code has it. Whenever an order is submitted and the terminal answers with a
  status other than \<open>TRADE_RETCODE_DONE\<close>, the one document printed is of type
  EXECUTION_ERROR and its message is the text \<^verbatim>\<open>Order failed: \<close> followed by the comment
  of the terminal.
\<close>

theorem rejected_order_reported:
  assumes "r \<in> set (order_requests (calls (fst (execute_trade rt t sd world0))))"
    and "order_send t r = Some result"
    and "res_retcode result \<noteq> TRADE_RETCODE_DONE"
  shows "stdout (fst (execute_trade rt t sd world0)) =
           [JObj [(''success'', JBool False),
                  (''error'', JObj [(''type'', JStr ''EXECUTION_ERROR''),
                                    (''message'',
                                       JStr (''Order failed: '' @ res_comment result))])]]"
proof (cases rule: execute_trade_cases [of t rt sd])
  case closed
  with assms(1) show ?thesis by (simp add: initialize_mt5_fail)
next
  case (unread e)
  with assms(1) show ?thesis by simp
next
  case (unresolved symbol volume action tp sl e)
  with assms(1) show ?thesis by simp
next
  case (submitted symbol volume action tp sl tick)
  with assms(1) have "r = make_request symbol volume action tp sl tick" by simp
  with assms(2,3) submitted(5) show ?thesis
    by (simp add: trade_error_def)
qed

theorem rejected_order_reported_witness:
  "order_send rejecting_terminal
       (make_request (JStr ''EURUSD'') (1 / 10) (JStr ''BUY'') (12 / 10) (11 / 10) sample_tick)
     = Some \<lparr>res_retcode = 10019, res_order = 0, res_volume = 0, res_price = 0,
              res_comment = ''No money''\<rparr>
   \<and> 10019 \<noteq> TRADE_RETCODE_DONE
   \<and> stdout (fst (execute_trade sample_runtime rejecting_terminal sample_signal world0)) =
       [JObj [(''success'', JBool False),
              (''error'', JObj [(''type'', JStr ''EXECUTION_ERROR''),
                                (''message'', JStr ''Order failed: No money'')])]]"
proof -
  have run: "order_requests (calls (fst (execute_trade sample_runtime rejecting_terminal
                                            sample_signal world0))) =
      [make_request (JStr ''EURUSD'') (1 / 10) (JStr ''BUY'') (12 / 10) (11 / 10) sample_tick]"
    by (simp add: execute_trade_def execute_trade_try_def initialize_mt5_def read_signal_def
                  required_fields_def resolve_def make_request_def Let_def mt5_call_def
                  print_json_def world0_def sample_terminal_def rejecting_terminal_def
                  sample_runtime_def sample_signal_def sample_fields_def TRADE_RETCODE_DONE_def)
  have ans: "order_send rejecting_terminal
       (make_request (JStr ''EURUSD'') (1 / 10) (JStr ''BUY'') (12 / 10) (11 / 10) sample_tick)
     = Some \<lparr>res_retcode = 10019, res_order = 0, res_volume = 0, res_price = 0,
              res_comment = ''No money''\<rparr>"
    by (simp add: rejecting_terminal_def)
  have ne: "res_retcode \<lparr>res_retcode = 10019, res_order = 0, res_volume = (0::real),
              res_price = (0::real), res_comment = ''No money''\<rparr> \<noteq> TRADE_RETCODE_DONE"
    by (simp add: TRADE_RETCODE_DONE_def)
  from rejected_order_reported [OF _ ans ne] run ans ne show ?thesis
    by simp
qed

text \<open>
  C5 with the bare comment as the message does not hold: the terminal rejects the sample
  order with the comment \<^verbatim>\<open>No money\<close>, and the message printed is not that comment.
\<close>

theorem rejected_order_message_counterexample:
  "order_requests (calls (fst (execute_trade sample_runtime rejecting_terminal
                                 sample_signal world0))) =
      [make_request (JStr ''EURUSD'') (1 / 10) (JStr ''BUY'') (12 / 10) (11 / 10) sample_tick]
   \<and> order_send rejecting_terminal
       (make_request (JStr ''EURUSD'') (1 / 10) (JStr ''BUY'') (12 / 10) (11 / 10) sample_tick)
     = Some \<lparr>res_retcode = 10019, res_order = 0, res_volume = 0, res_price = 0,
              res_comment = ''No money''\<rparr>
   \<and> 10019 \<noteq> TRADE_RETCODE_DONE
   \<and> stdout (fst (execute_trade sample_runtime rejecting_terminal sample_signal world0)) \<noteq>
       [JObj [(''success'', JBool False),
              (''error'', JObj [(''type'', JStr ''EXECUTION_ERROR''),
                                (''message'', JStr ''No money'')])]]"
  by (simp add: execute_trade_def execute_trade_try_def initialize_mt5_def read_signal_def
                required_fields_def resolve_def make_request_def Let_def mt5_call_def
                print_json_def world0_def sample_terminal_def rejecting_terminal_def
                sample_runtime_def sample_signal_def sample_fields_def TRADE_RETCODE_DONE_def
                trade_error_def)

section \<open>The connection check\<close>

text \<open>
  C8. Once the session is open, the connection check prints exactly one document: the
  login, server, balance and equity of the account record under \<^verbatim>\<open>account_info\<close> with
  success true when the query returns an account; success false with \<^verbatim>\<open>account_info\<close>
  null when it returns none; success false with an error of type CONNECTION_ERROR and
  the text of the exception when the query raises.
\<close>

theorem check_connection_output:
  assumes "initialize t"
  shows "stdout (fst (check_connection t world0)) =
           [case account_info t of
              Inr (Some a) \<Rightarrow>
                JObj [(''success'', JBool True),
                      (''account_info'', JObj [(''login'', JInt (login a)),
                                               (''server'', JStr (server a)),
                                               (''balance'', JFloat (balance a)),
                                               (''equity'', JFloat (equity a))])]
            | Inr None \<Rightarrow>
                JObj [(''success'', JBool False), (''account_info'', JNull)]
            | Inl e \<Rightarrow>
                JObj [(''success'', JBool False),
                      (''error'', JObj [(''message'', JStr (exn_str e)),
                                        (''type'', JStr ''CONNECTION_ERROR'')])]]"
  using assms
  by (simp add: check_connection_def initialize_mt5_ok connection_error_def Let_def
                mt5_call_def print_json_def world0_def
           split: sum.splits option.splits)

theorem check_connection_output_witness:
  "initialize sample_terminal \<and> initialize logged_out_terminal \<and> initialize raising_terminal
   \<and> stdout (fst (check_connection sample_terminal world0)) =
       [JObj [(''success'', JBool True),
              (''account_info'', JObj [(''login'', JInt 5001),
                                       (''server'', JStr ''Demo-Server''),
                                       (''balance'', JFloat 1000),
                                       (''equity'', JFloat 1005)])]]
   \<and> stdout (fst (check_connection logged_out_terminal world0)) =
       [JObj [(''success'', JBool False), (''account_info'', JNull)]]
   \<and> stdout (fst (check_connection raising_terminal world0)) =
       [JObj [(''success'', JBool False),
              (''error'', JObj [(''message'', JStr ''IPC timeout''),
                                (''type'', JStr ''CONNECTION_ERROR'')])]]"
  using check_connection_output [of sample_terminal]
        check_connection_output [of logged_out_terminal]
        check_connection_output [of raising_terminal]
  by (simp add: sample_terminal_def logged_out_terminal_def raising_terminal_def
                sample_account_def)

text \<open>
  C9. Two runs with \<^verbatim>\<open>--check-connection\<close> print the same values under
  \<^verbatim>\<open>account_info\<close> when the terminal opens (or fails to open) alike and answers the
  account query alike in both; nothing else of the terminal, of the interpreter or of
  standard input has a part in them.
\<close>

theorem check_connection_repeatable:
  assumes "initialize t1 = initialize t2"
    and "account_info t1 = account_info t2"
  shows "account_info_values (fst (main rt1 t1 True text1)) =
         account_info_values (fst (main rt2 t2 True text2))"
proof (cases "initialize t1")
  case True
  with assms(1) have "initialize t2" by simp
  with True assms(2) show ?thesis
    by (simp add: main_def account_info_values_def check_connection_def initialize_mt5_ok
                  Let_def mt5_call_def print_json_def world0_def connection_error_def
             split: prod.splits sum.splits option.splits)
next
  case False
  with assms(1) have "\<not> initialize t2" by simp
  with False show ?thesis
    by (simp add: main_def account_info_values_def check_connection_def initialize_mt5_fail
             split: prod.splits)
qed

theorem check_connection_repeatable_witness:
  "initialize rejecting_terminal = initialize other_terminal
   \<and> account_info rejecting_terminal = account_info other_terminal
   \<and> last_error rejecting_terminal \<noteq> last_error other_terminal
   \<and> account_info_values (fst (main sample_runtime rejecting_terminal True sample_text)) =
       [Some (JObj [(''login'', JInt 5001), (''server'', JStr ''Demo-Server''),
                    (''balance'', JFloat 1000), (''equity'', JFloat 1005)])]
   \<and> account_info_values (fst (main sample_runtime other_terminal True [])) =
       [Some (JObj [(''login'', JInt 5001), (''server'', JStr ''Demo-Server''),
                    (''balance'', JFloat 1000), (''equity'', JFloat 1005)])]"
proof -
  have "account_info_values (fst (main sample_runtime rejecting_terminal True sample_text)) =
       [Some (JObj [(''login'', JInt 5001), (''server'', JStr ''Demo-Server''),
                    (''balance'', JFloat 1000), (''equity'', JFloat 1005)])]"
    by (simp add: main_def account_info_values_def check_connection_def initialize_mt5_def
                  Let_def mt5_call_def print_json_def world0_def rejecting_terminal_def
                  sample_terminal_def sample_account_def)
  with check_connection_repeatable [where ?t1.0 = rejecting_terminal and ?t2.0 = other_terminal
      and ?rt1.0 = sample_runtime and ?rt2.0 = sample_runtime and ?text1.0 = sample_text
      and ?text2.0 = "[]"]
  show ?thesis
    by (simp add: other_terminal_def rejecting_terminal_def sample_terminal_def)
qed

section \<open>The session and the exit status\<close>

lemma execute_trade_outcome:
  "snd (execute_trade rt t sd world0) = (if initialize t then Returns () else Exits 1)"
  by (cases rule: execute_trade_cases [of t rt sd]) simp_all

text \<open>
  The exit status of every run: it follows the answer of \<^verbatim>\<open>mt5.initialize\<close> when the run
  comes to open the session, it is 0 when reading standard input raises a
  JSONDecodeError, and 1 when it raises anything else.
\<close>

lemma exit_status_of_main:
  "snd (main rt t check_connection_flag stdin_bytes) =
     (if check_connection_flag then (if initialize t then 0 else 1)
      else (case stdin_read rt stdin_bytes of
              Inl e \<Rightarrow> (if is_JSONDecodeError e then 0 else 1)
            | Inr text \<Rightarrow>
                (case json_loads rt text of
                   Inl e \<Rightarrow> (if is_JSONDecodeError e then 0 else 1)
                 | Inr signal_data \<Rightarrow> (if initialize t then 0 else 1))))"
proof (cases check_connection_flag)
  case flag: True
  show ?thesis
  proof (cases "initialize t")
    case True
    with flag show ?thesis
      by (simp add: main_def check_connection_def initialize_mt5_ok Let_def mt5_call_def
                    print_json_def world0_def
               split: sum.splits)
  next
    case False
    with flag show ?thesis
      by (simp add: main_def check_connection_def initialize_mt5_fail)
  qed
next
  case flag: False
  show ?thesis
  proof (cases "stdin_read rt stdin_bytes")
    case (Inl e)
    with flag show ?thesis
      by (simp add: main_def main_try_def main_except_def)
  next
    case rd: (Inr s)
    show ?thesis
    proof (cases "json_loads rt s")
      case (Inl e)
      with flag rd show ?thesis
        by (simp add: main_def main_try_def main_except_def)
    next
      case (Inr sd)
      obtain w res where run: "execute_trade rt t sd world0 = (w, res)"
        by (cases "execute_trade rt t sd world0") auto
      with execute_trade_outcome [of rt t sd]
      have "res = (if initialize t then Returns () else Exits 1)" by simp
      with flag rd Inr run show ?thesis
        by (simp add: main_def main_try_def main_except_def)
    qed
  qed
qed

text \<open>
  C6, at a thousand opening brackets on standard input and a terminal that would open the
  session: \<^verbatim>\<open>json.loads\<close> raises a RecursionError, which the clause
  \<^verbatim>\<open>except json.JSONDecodeError\<close> at line 150 does not match; nothing is printed,
  \<^verbatim>\<open>mt5.initialize\<close> is never called, and the process ends with status 1. The same
  holds for standard input that is not UTF-8, where \<^verbatim>\<open>sys.stdin.read\<close> raises a
  UnicodeDecodeError. Standard input that the parser refuses with a JSONDecodeError, as
  \<^verbatim>\<open>{not json\<close>, is answered with the INVALID_JSON document and status 0.
\<close>

theorem deep_input_exits_with_status_one:
  "initialize sample_terminal
   \<and> stdin_read sample_runtime deep_text = Inr deep_text
   \<and> json_loads sample_runtime deep_text =
       Inl (RecursionError ''maximum recursion depth exceeded while decoding a JSON array'')
   \<and> main sample_runtime sample_terminal False deep_text = (\<lparr>stdout = [], calls = []\<rparr>, 1)
   \<and> stdin_read sample_runtime [CHR 0xFF] = Inl (UnicodeDecodeError ''invalid start byte'')
   \<and> main sample_runtime sample_terminal False [CHR 0xFF] = (\<lparr>stdout = [], calls = []\<rparr>, 1)
   \<and> main sample_runtime sample_terminal False ''{not json'' =
       (\<lparr>stdout = [JObj [(''success'', JBool False),
                         (''error'', JObj [(''type'', JStr ''INVALID_JSON''),
                                           (''message'', JStr ''Failed to parse signal data'')])]],
         calls = []\<rparr>, 0)"
  by (simp add: main_def main_try_def main_except_def sample_runtime_def sample_stdin_read_def
                sample_json_loads_def sample_text_def deep_text_def sample_terminal_def
                invalid_json_def print_json_def world0_def)

text \<open>
  C7, at the input \<^verbatim>\<open>--check-connection\<close> with a terminal that opens the session and
  whose account query raises: the handler at lines 39 to 47 prints the CONNECTION_ERROR
  document and returns; \<^verbatim>\<open>mt5.shutdown\<close> is not among the calls of the run, and the
  process ends with status 0. Both handlers of \<^verbatim>\<open>execute_trade\<close> do call it
  (\<open>execute_trade_shuts_down\<close>), and so does the connection check whenever the query
  returns (\<open>check_connection_shuts_down\<close>).
\<close>

theorem connection_failure_leaves_session_open:
  "initialize raising_terminal
   \<and> account_info raising_terminal = Inl (RuntimeError ''IPC timeout'')
   \<and> main sample_runtime raising_terminal True [] =
       (\<lparr>stdout = [JObj [(''success'', JBool False),
                         (''error'', JObj [(''message'', JStr ''IPC timeout''),
                                           (''type'', JStr ''CONNECTION_ERROR'')])]],
         calls = [Call_initialize, Call_account_info]\<rparr>, 0)
   \<and> Call_shutdown \<notin> set (calls (fst (main sample_runtime raising_terminal True [])))"
  by (simp add: main_def check_connection_def initialize_mt5_def connection_error_def Let_def
                mt5_call_def print_json_def world0_def raising_terminal_def sample_terminal_def)

section \<open>Submission\<close>

text \<open>
  C10. In every run of the trade executor at most one order is submitted, and when the
  document printed is of type VALIDATION_ERROR none is: a missing field, a value that
  \<^verbatim>\<open>float\<close> refuses with a ValueError, an unknown or unselectable symbol and a missing
  quote are all met before line 100.
\<close>

theorem order_sent_at_most_once:
  "length (order_requests (calls (fst (execute_trade rt t sd world0)))) \<le> 1
   \<and> ((\<exists>j\<in>set (stdout (fst (execute_trade rt t sd world0))).
          error_type j = Some (JStr ''VALIDATION_ERROR''))
        \<longrightarrow> order_requests (calls (fst (execute_trade rt t sd world0))) = [])"
proof (cases rule: execute_trade_cases [of t rt sd])
  case closed
  then show ?thesis by (simp add: initialize_mt5_fail)
next
  case (unread e)
  then show ?thesis by simp
next
  case (unresolved symbol volume action tp sl e)
  then show ?thesis by simp
next
  case (submitted symbol volume action tp sl tick)
  then show ?thesis
    by (simp split: option.splits)
qed

theorem order_sent_at_most_once_witness:
  "error_type (JObj [(''success'', JBool False),
                     (''error'', JObj [(''type'', JStr ''VALIDATION_ERROR''),
                                       (''message'', JStr ''Symbol GBPJPY not found'')])])
     = Some (JStr ''VALIDATION_ERROR'')
   \<and> stdout (fst (execute_trade sample_runtime other_terminal sample_signal world0)) =
       [JObj [(''success'', JBool False),
              (''error'', JObj [(''type'', JStr ''VALIDATION_ERROR''),
                                (''message'', JStr ''Symbol EURUSD not found'')])]]
   \<and> order_requests (calls (fst (execute_trade sample_runtime other_terminal
                                     sample_signal world0))) = []
   \<and> length (order_requests (calls (fst (execute_trade sample_runtime sample_terminal
                                            sample_signal world0)))) = 1"
proof -
  have out: "stdout (fst (execute_trade sample_runtime other_terminal sample_signal world0)) =
       [JObj [(''success'', JBool False),
              (''error'', JObj [(''type'', JStr ''VALIDATION_ERROR''),
                                (''message'', JStr ''Symbol EURUSD not found'')])]]"
    by (simp add: execute_trade_def execute_trade_try_def initialize_mt5_def read_signal_def
                  required_fields_def resolve_def Let_def mt5_call_def print_json_def
                  world0_def sample_terminal_def rejecting_terminal_def other_terminal_def
                  sample_runtime_def sample_signal_def sample_fields_def trade_error_def)
  have sent: "length (order_requests (calls (fst (execute_trade sample_runtime sample_terminal
                                            sample_signal world0)))) = 1"
    by (simp add: execute_trade_def execute_trade_try_def initialize_mt5_def read_signal_def
                  required_fields_def resolve_def make_request_def Let_def mt5_call_def
                  print_json_def world0_def sample_terminal_def sample_runtime_def
                  sample_signal_def sample_fields_def TRADE_RETCODE_DONE_def)
  from order_sent_at_most_once [of sample_runtime other_terminal sample_signal] out sent
  show ?thesis
    by (simp add: error_type_def)
qed

end
